theory Spec2Isabelle
  imports Main
begin

section \<open>The Expo push client of \<^verbatim>\<open>push_client.go\<close>\<close>

text \<open>
  The embedding follows \<^verbatim>\<open>src/push_client.go\<close> function by function. Go's
  \<^verbatim>\<open>(value, error)\<close> results are sums with the error on the left, a nil pointer
  or nil slice is \<open>None\<close>, and the calls the code makes on its collaborators (the
  transport, the response body) are recorded, in order, in a list of events that every
  operation returns beside its result.
\<close>

subsection \<open>Data\<close>

text \<open>
  Modelled from the spec: the declaration of \<^verbatim>\<open>PushMessage\<close> is not in
  \<^verbatim>\<open>push_client.go\<close>. The spec gives it a list of recipient tokens (strings, the
  code compares them with \<^verbatim>\<open>""\<close>) and payload fields that are opaque to the client
  and passed through; the payload is kept as a list of named fields.
\<close>

record PushMessage =
  To :: "string list"
  Payload :: "(string \<times> string) list"

text \<open>
  Modelled from the spec: the declaration of \<^verbatim>\<open>PushResponse\<close> is not in
  \<^verbatim>\<open>push_client.go\<close>. The code only writes its field \<^verbatim>\<open>PushMessage\<close>; the spec
  lists a status, an optional delivery identifier and an optional error detail.
\<close>

record PushResponse =
  PushMessage :: PushMessage
  Status :: string
  ID :: string
  Message :: string
  Details :: "(string \<times> string) list"

text \<open>The zero values \<^verbatim>\<open>PushMessage{}\<close> and \<^verbatim>\<open>PushResponse{}\<close>.\<close>

definition PushMessage_zero :: PushMessage where
  "PushMessage_zero = \<lparr>To = [], Payload = []\<rparr>"

definition PushResponse_zero :: PushResponse where
  "PushResponse_zero =
     \<lparr>PushMessage = PushMessage_zero, Status = [], ID = [], Message = [], Details = []\<rparr>"

text \<open>
  Modelled from the spec: the declaration of \<^verbatim>\<open>Response\<close> (the envelope) is not in
  \<^verbatim>\<open>push_client.go\<close>. Both fields are slices that the code compares with
  \<^verbatim>\<open>nil\<close>: \<open>None\<close> is the nil slice (the field absent from the JSON object, or
  \<^verbatim>\<open>null\<close>), \<open>Some []\<close> the empty slice that decoding \<^verbatim>\<open>[]\<close> gives. One
  batch-level error is a JSON object of string fields.
\<close>

type_synonym batch_error = "(string \<times> string) list"

record Response =
  Data :: "PushResponse list option"
  Errors :: "batch_error list option"

text \<open>
  The body stream of an HTTP response, seen through the JSON decoder (an external
  collaborator): bytes that do not decode into the envelope's shape (with the
  decoder's message), the JSON value \<^verbatim>\<open>null\<close>, or an object that decodes into an
  envelope.
\<close>

datatype RawBody = NotJSON string | JSONNull | JSONObject Response

text \<open>\<^verbatim>\<open>fastshot.Response\<close>, as far as the code reads it: \<open>StatusText\<close> is what
  \<^verbatim>\<open>resp.Status()\<close> returns (the name \<open>Status\<close> is the field of \<open>PushResponse\<close>).\<close>

record fastshot_Response =
  StatusCode :: int
  StatusText :: string
  RawBody :: RawBody

text \<open>
  Error values. \<^verbatim>\<open>errors.New\<close> and \<^verbatim>\<open>fmt.Errorf\<close> (without \<^verbatim>\<open>%w\<close>) both
  give an error that is its message: \<open>ErrorString\<close>. \<open>SendError\<close> is an error of
  the transport, \<open>DecodeError\<close> one of the JSON decoder. \<open>PushServerError\<close> holds
  the four arguments of \<^verbatim>\<open>NewPushServerError\<close> (its declaration is not in
  \<^verbatim>\<open>push_client.go\<close>). \<open>Panic\<close> is a Go runtime panic: the call does not return;
  it is a member of this type so that each operation has one result type.
\<close>

datatype err =
    ErrorString string
  | SendError string
  | DecodeError string
  | PushServerError string fastshot_Response Response "batch_error list option"
  | Panic string

text \<open>
  \<^verbatim>\<open>fastshot.ClientHttpMethods\<close>, by the one chain of calls the code makes on it:
  \<^verbatim>\<open>POST(path).Body().AsJSON(messages).Send()\<close>, which yields an error or a
  response.
\<close>

type_synonym ClientHttpMethods = "string \<Rightarrow> PushMessage list \<Rightarrow> err + fastshot_Response"

text \<open>
  The fast-shot client builder (\<^verbatim>\<open>fastshot.NewClient(host)\<close>, the headers added,
  \<^verbatim>\<open>Build()\<close>) is a library outside the repository: it is a parameter, a function
  from the base URL and the headers to the client built.
\<close>

type_synonym builder = "string \<Rightarrow> (string \<times> string) list \<Rightarrow> ClientHttpMethods"

record ClientConfig =
  Host :: string
  APIURL :: string
  AccessToken :: string
  HTTPClient :: "ClientHttpMethods option"

record PushClient =
  host :: string
  apiURL :: string
  accessToken :: string
  httpClient :: "ClientHttpMethods option"

text \<open>What a call does to its collaborators, in the order it does it.\<close>

datatype event =
    Sent string "PushMessage list"
  | BodyDecoded
  | BodyClosed

subsection \<open>Construction\<close>

definition DefaultHost :: string where
  "DefaultHost = ''https://exp.host''"

definition DefaultBaseAPIURL :: string where
  "DefaultBaseAPIURL = ''/--/api/v2''"

text \<open>
  Modelled from the spec: the constant \<^verbatim>\<open>mime.JSON\<close> of fast-shot is not in the
  repository; the spec says the default transport sets JSON content-type and accept
  headers.
\<close>

definition mime_JSON :: string where
  "mime_JSON = ''application/json''"

definition DefaultHTTPClient :: "builder \<Rightarrow> string \<Rightarrow> string \<Rightarrow> ClientHttpMethods" where
  "DefaultHTTPClient build h tok =
     build h
       ([(''Content-Type'', ''application/json''), (''Accept'', mime_JSON)] @
        (if tok \<noteq> [] then [(''Authorization'', ''Bearer '' @ tok)] else []))"

text \<open>
  \<^verbatim>\<open>NewPushClient\<close>. The local \<^verbatim>\<open>httpClient\<close> starts as the nil interface value
  and is assigned only inside \<^verbatim>\<open>if config != nil\<close>.
\<close>

definition NewPushClient :: "builder \<Rightarrow> ClientConfig option \<Rightarrow> PushClient" where
  "NewPushClient build config =
     (case config of
        None \<Rightarrow>
          \<lparr>host = DefaultHost, apiURL = DefaultBaseAPIURL, accessToken = [], httpClient = None\<rparr>
      | Some cfg \<Rightarrow>
          (let h = (if Host cfg \<noteq> [] then Host cfg else DefaultHost);
               u = (if APIURL cfg \<noteq> [] then APIURL cfg else DefaultBaseAPIURL);
               tok = (if AccessToken cfg \<noteq> [] then AccessToken cfg else []);
               cl = (case HTTPClient cfg of
                       Some t \<Rightarrow> t
                     | None \<Rightarrow> DefaultHTTPClient build h tok)
           in \<lparr>host = h, apiURL = u, accessToken = tok, httpClient = Some cl\<rparr>))"

subsection \<open>Formatting\<close>

text \<open>The verb \<^verbatim>\<open>%d\<close> of \<^verbatim>\<open>fmt\<close> on an \<^verbatim>\<open>int\<close>: decimal, with a minus sign.\<close>

definition digit :: "nat \<Rightarrow> char" where
  "digit n = ''0123456789'' ! n"

function digits :: "nat \<Rightarrow> string" where
  "digits n = (if n < 10 then [digit n] else digits (n div 10) @ [digit (n mod 10)])"
  by pat_completeness auto
termination
  by (relation "measure id") auto

declare digits.simps [simp del]

definition fmt_d :: "int \<Rightarrow> string" where
  "fmt_d i = (if i < 0 then CHR ''-'' # digits (nat (- i)) else digits (nat i))"

text \<open>Reading a decimal numeral back, to say what \<open>digits\<close> writes.\<close>

definition decimal_value :: "string \<Rightarrow> nat" where
  "decimal_value s = foldl (\<lambda>acc ch. 10 * acc + (of_char ch - 48)) 0 s"

subsection \<open>Sending\<close>

text \<open>\<^verbatim>\<open>checkStatus\<close>: \<open>None\<close> is the nil error.\<close>

definition checkStatus :: "fastshot_Response \<Rightarrow> err option" where
  "checkStatus resp =
     (if StatusCode resp \<ge> 200 \<and> StatusCode resp \<le> 299 then None
      else Some (ErrorString
        (''invalid response ('' @ fmt_d (StatusCode resp) @ '' '' @ StatusText resp @ '')'')))"

text \<open>The validation loops of \<^verbatim>\<open>publishInternal\<close>: the inner one over the recipients.\<close>

fun validateRecipients :: "string list \<Rightarrow> err option" where
  "validateRecipients [] = None"
| "validateRecipients (recipient # rest) =
     (if recipient = [] then Some (ErrorString ''invalid push token'')
      else validateRecipients rest)"

fun validateMessages :: "PushMessage list \<Rightarrow> err option" where
  "validateMessages [] = None"
| "validateMessages (message # rest) =
     (if length (To message) = 0 then Some (ErrorString ''no recipients'')
      else (case validateRecipients (To message) of
              Some e \<Rightarrow> Some e
            | None \<Rightarrow> validateMessages rest))"

text \<open>
  The last loop of \<^verbatim>\<open>publishInternal\<close>, \<^verbatim>\<open>for i := range r.Data\<close>, from index
  \<open>i\<close> on: it writes \<^verbatim>\<open>messages[i]\<close> into \<^verbatim>\<open>r.Data[i].PushMessage\<close>. Reading
  \<^verbatim>\<open>messages[i]\<close> out of range panics.
\<close>

function attachMessages ::
  "nat \<Rightarrow> PushMessage list \<Rightarrow> PushResponse list \<Rightarrow> err + PushResponse list" where
  "attachMessages i messages data =
     (if i < length data then
        (if i < length messages then
           attachMessages (Suc i) messages
             (data[i := (data ! i)\<lparr>PushMessage := messages ! i\<rparr>])
         else Inl (Panic ''index out of range''))
      else Inr data)"
  by pat_completeness auto
termination
  by (relation "measure (\<lambda>(i, messages, data). length data - i)") auto

declare attachMessages.simps [simp del]

text \<open>\<^verbatim>\<open>json.NewDecoder(resp.RawBody()).Decode(&r)\<close> with \<^verbatim>\<open>var r *Response\<close>:
  the JSON value \<^verbatim>\<open>null\<close> leaves \<^verbatim>\<open>r\<close> nil and is no error.\<close>

fun json_Decode :: "RawBody \<Rightarrow> err + Response option" where
  "json_Decode (NotJSON msg) = Inl (DecodeError msg)"
| "json_Decode JSONNull = Inr None"
| "json_Decode (JSONObject r) = Inr (Some r)"

text \<open>
  \<^verbatim>\<open>publishInternal\<close> from the checks of the decoded envelope on (after
  \<^verbatim>\<open>Decode\<close> returned no error): reading \<^verbatim>\<open>r.Errors\<close> through a nil \<^verbatim>\<open>r\<close>
  panics.
\<close>

definition reconcile ::
  "PushMessage list \<Rightarrow> fastshot_Response \<Rightarrow> Response option \<Rightarrow> err + PushResponse list" where
  "reconcile messages resp rp =
     (case rp of
        None \<Rightarrow> Inl (Panic ''nil pointer dereference'')
      | Some r \<Rightarrow>
          (if Errors r \<noteq> None then
             Inl (PushServerError ''Invalid server response'' resp r (Errors r))
           else (case Data r of
              None \<Rightarrow> Inl (PushServerError ''Invalid server response'' resp r None)
            | Some data \<Rightarrow>
                if int (length messages) \<noteq> int (length data) then
                  Inl (PushServerError
                    (''Mismatched response length. Expected '' @ fmt_d (int (length messages)) @
                     '' receipts but only received '' @ fmt_d (int (length data)))
                    resp r None)
                else attachMessages 0 messages data)))"

text \<open>
  \<^verbatim>\<open>publishInternal\<close>. The receiver is a client that \<^verbatim>\<open>NewPushClient\<close> made (never
  nil). Calling \<^verbatim>\<open>POST\<close> on a nil \<^verbatim>\<open>httpClient\<close> panics. The deferred
  \<^verbatim>\<open>resp.RawBody().Close()\<close> is registered after the status check and runs when the
  function leaves, by return or by panic.
\<close>

definition publishInternal ::
  "PushClient \<Rightarrow> PushMessage list \<Rightarrow> (err + PushResponse list) \<times> event list" where
  "publishInternal c messages =
     (case validateMessages messages of
        Some e \<Rightarrow> (Inl e, [])
      | None \<Rightarrow>
          (case httpClient c of
             None \<Rightarrow> (Inl (Panic ''nil pointer dereference''), [])
           | Some client \<Rightarrow>
               (case client (apiURL c @ ''/push/send'') messages of
                  Inl e \<Rightarrow> (Inl e, [Sent (apiURL c @ ''/push/send'') messages])
                | Inr resp \<Rightarrow>
                    (case checkStatus resp of
                       Some e \<Rightarrow> (Inl e, [Sent (apiURL c @ ''/push/send'') messages])
                     | None \<Rightarrow>
                         (case json_Decode (RawBody resp) of
                            Inl e \<Rightarrow>
                              (Inl e,
                               [Sent (apiURL c @ ''/push/send'') messages, BodyDecoded, BodyClosed])
                          | Inr rp \<Rightarrow>
                              (reconcile messages resp rp,
                               [Sent (apiURL c @ ''/push/send'') messages, BodyDecoded, BodyClosed]))))))"

definition PublishMultiple ::
  "PushClient \<Rightarrow> PushMessage list \<Rightarrow> (err + PushResponse list) \<times> event list" where
  "PublishMultiple c messages = publishInternal c messages"

text \<open>
  \<^verbatim>\<open>Publish\<close> returns a pair: the response and the error (\<open>None\<close> for nil).
  Dereferencing a nil \<^verbatim>\<open>message\<close> and reading \<^verbatim>\<open>responses[0]\<close> of an empty slice
  panic.
\<close>

definition Publish ::
  "PushClient \<Rightarrow> PushMessage option \<Rightarrow> (PushResponse \<times> err option) \<times> event list" where
  "Publish c message =
     (case message of
        None \<Rightarrow> ((PushResponse_zero, Some (Panic ''nil pointer dereference'')), [])
      | Some m \<Rightarrow>
          (case PublishMultiple c [m] of
             (Inl e, evs) \<Rightarrow> ((PushResponse_zero, Some e), evs)
           | (Inr responses, evs) \<Rightarrow>
               (case responses of
                  [] \<Rightarrow> ((PushResponse_zero, Some (Panic ''index out of range'')), evs)
                | r # _ \<Rightarrow> ((r, None), evs))))"

text \<open>
  The single send as the specification words it: the batch send of the one-element
  list, then its first result, or the batch's error with an empty result value.
\<close>

definition Send_spec ::
  "PushClient \<Rightarrow> PushMessage \<Rightarrow> (PushResponse \<times> err option) \<times> event list" where
  "Send_spec c m =
     (case PublishMultiple c [m] of
        (Inl e, evs) \<Rightarrow> ((PushResponse_zero, Some e), evs)
      | (Inr responses, evs) \<Rightarrow> ((responses ! 0, None), evs))"

subsection \<open>Concrete inputs\<close>

text \<open>
  A client with an injected transport that answers every request with the same
  response, two messages, a per-item result, and a response with a JSON envelope.
\<close>

definition stub_client :: "fastshot_Response \<Rightarrow> PushClient" where
  "stub_client resp =
     \<lparr>host = DefaultHost, apiURL = DefaultBaseAPIURL, accessToken = [],
      httpClient = Some (\<lambda>path messages. Inr resp)\<rparr>"

definition msgA :: PushMessage where
  "msgA = \<lparr>To = [''A''], Payload = [(''title'', ''hello'')]\<rparr>"

definition msgB :: PushMessage where
  "msgB = \<lparr>To = [''B''], Payload = []\<rparr>"

definition ok :: PushResponse where
  "ok = PushResponse_zero\<lparr>Status := ''ok''\<rparr>"

definition json_response :: "int \<Rightarrow> string \<Rightarrow> Response \<Rightarrow> fastshot_Response" where
  "json_response code txt r = \<lparr>StatusCode = code, StatusText = txt, RawBody = JSONObject r\<rparr>"

text \<open>A response with status 500, and two envelopes that carry an errors field: an
  empty one beside the data, and a batch-level error without data.\<close>

definition resp500 :: fastshot_Response where
  "resp500 =
     \<lparr>StatusCode = 500, StatusText = ''Internal Server Error'', RawBody = NotJSON ''oops''\<rparr>"

definition env_empty_errors :: Response where
  "env_empty_errors = \<lparr>Data = Some [ok], Errors = Some []\<rparr>"

definition env_errors :: Response where
  "env_errors = \<lparr>Data = None, Errors = Some [[(''message'', ''bad'')]]\<rparr>"

section \<open>Properties\<close>

subsection \<open>The loops\<close>

lemma validateRecipients_eq:
  "validateRecipients rs =
     (if [] \<in> set rs then Some (ErrorString ''invalid push token'') else None)"
  by (induction rs) auto

lemma validateMessages_None:
  "validateMessages ms = None \<longleftrightarrow> (\<forall>m \<in> set ms. To m \<noteq> [] \<and> [] \<notin> set (To m))"
  by (induction ms) (auto simp: validateRecipients_eq)

lemma validateMessages_first:
  assumes "\<forall>p \<in> set pre. To p \<noteq> [] \<and> [] \<notin> set (To p)"
    and "To m = [] \<or> [] \<in> set (To m)"
  shows "validateMessages (pre @ m # post) =
     Some (ErrorString (if To m = [] then ''no recipients'' else ''invalid push token''))"
  using assms by (induction pre) (auto simp: validateRecipients_eq)

text \<open>
  Started at \<open>i\<close> on lists of equal length, the pairing loop leaves the first \<open>i\<close>
  results as they are and writes message \<open>j\<close> into result \<open>j\<close> from there on.
\<close>

lemma attachMessages_from:
  "i \<le> length data \<Longrightarrow> length messages = length data \<Longrightarrow>
   attachMessages i messages data =
     Inr (take i data @ map2 (\<lambda>r m. r\<lparr>PushMessage := m\<rparr>) (drop i data) (drop i messages))"
proof (induction i messages data rule: attachMessages.induct)
  case (1 i messages data)
  show ?case
  proof (cases "i < length data")
    case True
    let ?d = "data[i := (data ! i)\<lparr>PushMessage := messages ! i\<rparr>]"
    have im: "i < length messages" using True 1(3) by simp
    have "attachMessages i messages data = attachMessages (Suc i) messages ?d"
      using True im by (subst attachMessages.simps) simp
    also have "\<dots> = Inr (take (Suc i) ?d @
        map2 (\<lambda>r m. r\<lparr>PushMessage := m\<rparr>) (drop (Suc i) ?d) (drop (Suc i) messages))"
      using 1(1)[OF True im] True 1(3) by simp
    also have "take (Suc i) ?d = take i data @ [(data ! i)\<lparr>PushMessage := messages ! i\<rparr>]"
      using True by (simp add: take_Suc_conv_app_nth)
    also have "drop (Suc i) ?d = drop (Suc i) data" by simp
    finally show ?thesis
      using True im
      by (simp add: Cons_nth_drop_Suc[symmetric])
  next
    case False
    then show ?thesis using 1(2) by (subst attachMessages.simps) simp
  qed
qed

lemma attachMessages_0:
  "length messages = length data \<Longrightarrow>
   attachMessages 0 messages data = Inr (map2 (\<lambda>r m. r\<lparr>PushMessage := m\<rparr>) data messages)"
  using attachMessages_from[of 0 data messages] by simp

subsection \<open>Formatting\<close>

text \<open>\<open>digits\<close> writes the decimal numeral of its argument.\<close>

lemma of_char_digit: "d < 10 \<Longrightarrow> of_char (digit d) = (48 + d :: nat)"
proof -
  assume "d < 10"
  then have "d \<in> {0, 1, 2, 3, 4, 5, 6, 7, 8, 9}" by auto
  then show ?thesis by (auto simp: digit_def)
qed

lemma decimal_value_digits: "decimal_value (digits n) = n"
proof (induction n rule: digits.induct)
  case (1 n)
  show ?case
  proof (cases "n < 10")
    case True
    then show ?thesis
      by (subst digits.simps) (simp add: decimal_value_def of_char_digit)
  next
    case False
    have "decimal_value (digits n) = 10 * decimal_value (digits (n div 10)) + n mod 10"
      using False by (subst digits.simps) (simp add: decimal_value_def of_char_digit)
    with 1[OF False] show ?thesis by simp
  qed
qed

lemma fmt_500: "fmt_d 500 = ''500''"
  by (simp add: fmt_d_def digits.simps digit_def)

lemma fmt_small: "fmt_d 2 = ''2''" "fmt_d 1 = ''1''"
  by (simp_all add: fmt_d_def digits.simps digit_def)

subsection \<open>The paths through \<^verbatim>\<open>publishInternal\<close>\<close>

lemma checkStatus_None:
  "checkStatus resp = None \<longleftrightarrow> 200 \<le> StatusCode resp \<and> StatusCode resp \<le> 299"
  by (simp add: checkStatus_def)

lemma reconcile_Inr:
  "reconcile ms resp rp = Inr rs \<longleftrightarrow>
     (\<exists>r data. rp = Some r \<and> Errors r = None \<and> Data r = Some data \<and>
        length data = length ms \<and> rs = map2 (\<lambda>r m. r\<lparr>PushMessage := m\<rparr>) data ms)"
  by (auto simp: reconcile_def attachMessages_0 split: option.splits)

text \<open>A call that succeeds went through every check, and its results are the
  envelope's, each with the message of its own position.\<close>

lemma publishInternal_Inr:
  assumes "publishInternal c ms = (Inr rs, evs)"
  shows "\<exists>t resp r data. validateMessages ms = None \<and> httpClient c = Some t \<and>
     t (apiURL c @ ''/push/send'') ms = Inr resp \<and> checkStatus resp = None \<and>
     RawBody resp = JSONObject r \<and> Errors r = None \<and> Data r = Some data \<and>
     length data = length ms \<and> rs = map2 (\<lambda>r m. r\<lparr>PushMessage := m\<rparr>) data ms \<and>
     evs = [Sent (apiURL c @ ''/push/send'') ms, BodyDecoded, BodyClosed]"
proof -
  from assms obtain t resp rp where
    v: "validateMessages ms = None" and t: "httpClient c = Some t" and
    s: "t (apiURL c @ ''/push/send'') ms = Inr resp" and k: "checkStatus resp = None" and
    d: "json_Decode (RawBody resp) = Inr rp" and r: "reconcile ms resp rp = Inr rs" and
    e: "evs = [Sent (apiURL c @ ''/push/send'') ms, BodyDecoded, BodyClosed]"
    by (auto simp: publishInternal_def split: option.splits sum.splits)
  from r obtain r' data where rp: "rp = Some r'" and
    rest: "Errors r' = None" "Data r' = Some data" "length data = length ms"
      "rs = map2 (\<lambda>r m. r\<lparr>PushMessage := m\<rparr>) data ms"
    unfolding reconcile_Inr by blast
  from d rp have "RawBody resp = JSONObject r'"
    by (cases "RawBody resp") auto
  with v t s k rest e show ?thesis by blast
qed

text \<open>Once the status check has passed and the body decodes into an envelope, the
  outcome is that of the envelope checks, and the body has been closed.\<close>

lemma publishInternal_decoded:
  assumes "validateMessages ms = None" "httpClient c = Some t"
    "t (apiURL c @ ''/push/send'') ms = Inr resp" "checkStatus resp = None"
    "RawBody resp = JSONObject r"
  shows "publishInternal c ms =
     (reconcile ms resp (Some r), [Sent (apiURL c @ ''/push/send'') ms, BodyDecoded, BodyClosed])"
  using assms by (simp add: publishInternal_def)

text \<open>On every path that leaves the status check behind, the body is closed after
  the decoding, whatever the decoding and the envelope checks give.\<close>

lemma body_closed_after_status_check:
  assumes "validateMessages ms = None" "httpClient c = Some t"
    "t (apiURL c @ ''/push/send'') ms = Inr resp" "checkStatus resp = None"
  shows "snd (publishInternal c ms) = [Sent (apiURL c @ ''/push/send'') ms, BodyDecoded, BodyClosed]"
  using assms by (simp add: publishInternal_def split: sum.splits)

text \<open>A configuration that is present but empty gets the default transport, built
  at construction, with no Authorization header.\<close>

lemma NewPushClient_empty_config:
  "NewPushClient build (Some \<lparr>Host = [], APIURL = [], AccessToken = [], HTTPClient = None\<rparr>) =
     \<lparr>host = DefaultHost, apiURL = DefaultBaseAPIURL, accessToken = [],
      httpClient = Some (build DefaultHost
        [(''Content-Type'', ''application/json''), (''Accept'', ''application/json'')])\<rparr>"
  by (simp add: NewPushClient_def DefaultHTTPClient_def mime_JSON_def)

subsection \<open>Claims\<close>

text \<open>
  C1. For a non-empty list of messages with valid recipients, a call of
  \<^verbatim>\<open>PublishMultiple\<close> that succeeds returns as many results as there were messages,
  and the result at position \<open>i\<close> refers back to message \<open>i\<close>: it is the envelope's
  item \<open>i\<close> with message \<open>i\<close> written into it, so the pairing is by position alone.
\<close>

theorem C1_positional_pairing:
  assumes "ms \<noteq> []" and "\<forall>m \<in> set ms. To m \<noteq> [] \<and> [] \<notin> set (To m)"
    and "PublishMultiple c ms = (Inr rs, evs)"
  shows "length rs = length ms \<and> (\<forall>i < length ms. PushMessage (rs ! i) = ms ! i) \<and>
     (\<exists>t resp r data. httpClient c = Some t \<and> t (apiURL c @ ''/push/send'') ms = Inr resp \<and>
        RawBody resp = JSONObject r \<and> Data r = Some data \<and> length data = length ms \<and>
        (\<forall>i < length ms. rs ! i = (data ! i)\<lparr>PushMessage := ms ! i\<rparr>))"
proof -
  from assms(3) have "publishInternal c ms = (Inr rs, evs)"
    by (simp add: PublishMultiple_def)
  from publishInternal_Inr[OF this] obtain t resp r data where
    t: "httpClient c = Some t" "t (apiURL c @ ''/push/send'') ms = Inr resp"
      "RawBody resp = JSONObject r" "Data r = Some data" and
    len: "length data = length ms" and
    rs: "rs = map2 (\<lambda>r m. r\<lparr>PushMessage := m\<rparr>) data ms"
    by blast
  have l: "length rs = length ms" using rs len by simp
  have n: "\<forall>i < length ms. rs ! i = (data ! i)\<lparr>PushMessage := ms ! i\<rparr>"
    using rs len by simp
  then have "\<forall>i < length ms. PushMessage (rs ! i) = ms ! i" by simp
  with l n t len show ?thesis by blast
qed

theorem C1_witness:
  "[msgA, msgB] \<noteq> [] \<and>
   PublishMultiple
     (stub_client (json_response 200 ''200 OK'' \<lparr>Data = Some [ok, ok], Errors = None\<rparr>))
     [msgA, msgB] =
     (Inr [ok\<lparr>PushMessage := msgA\<rparr>, ok\<lparr>PushMessage := msgB\<rparr>],
      [Sent ''/--/api/v2/push/send'' [msgA, msgB], BodyDecoded, BodyClosed]) \<and>
   length [ok\<lparr>PushMessage := msgA\<rparr>, ok\<lparr>PushMessage := msgB\<rparr>] = length [msgA, msgB] \<and>
   PushMessage ([ok\<lparr>PushMessage := msgA\<rparr>, ok\<lparr>PushMessage := msgB\<rparr>] ! 0) = [msgA, msgB] ! 0 \<and>
   PushMessage ([ok\<lparr>PushMessage := msgA\<rparr>, ok\<lparr>PushMessage := msgB\<rparr>] ! 1) = [msgA, msgB] ! 1"
proof -
  have h1: "[msgA, msgB] \<noteq> []" by simp
  have h2: "\<forall>m \<in> set [msgA, msgB]. To m \<noteq> [] \<and> [] \<notin> set (To m)"
    by (simp add: msgA_def msgB_def)
  have h3: "PublishMultiple
     (stub_client (json_response 200 ''200 OK'' \<lparr>Data = Some [ok, ok], Errors = None\<rparr>))
     [msgA, msgB] =
     (Inr [ok\<lparr>PushMessage := msgA\<rparr>, ok\<lparr>PushMessage := msgB\<rparr>],
      [Sent ''/--/api/v2/push/send'' [msgA, msgB], BodyDecoded, BodyClosed])"
    by (simp add: PublishMultiple_def publishInternal_def stub_client_def json_response_def
        checkStatus_def reconcile_def attachMessages.simps msgA_def msgB_def
        DefaultBaseAPIURL_def)
  from C1_positional_pairing[OF h1 h2 h3] h1 h3 show ?thesis by simp
qed

text \<open>
  C2. The specification has the body of every received HTTP response closed before
  \<^verbatim>\<open>PublishMultiple\<close> returns, also on the path of a status outside 200..299. The
  code registers the deferred close after the status check, and the check returns
  first: for a transport that answers 500 the call sends the request, fails with the
  status error, and the body is never closed.
\<close>

theorem C2_body_left_open_on_status_error:
  "PublishMultiple (stub_client resp500) [msgA] =
     (Inl (ErrorString ''invalid response (500 Internal Server Error)''),
      [Sent ''/--/api/v2/push/send'' [msgA]]) \<and>
   BodyClosed \<notin> set (snd (PublishMultiple (stub_client resp500) [msgA]))"
  by (simp add: PublishMultiple_def publishInternal_def stub_client_def resp500_def
      checkStatus_def fmt_500 msgA_def DefaultBaseAPIURL_def)

text \<open>
  C3. The specification gives a client constructed with no configuration the default
  host, the default path, an empty credential, and a default transport built at
  construction.
  The code builds the default transport only inside \<^verbatim>\<open>if config != nil\<close>: with a
  nil configuration the host, path and credential are the defaults, but the transport
  is left nil, and the first send through the client panics.
\<close>

theorem C3_nil_config_leaves_transport_nil:
  "NewPushClient build None =
     \<lparr>host = ''https://exp.host'', apiURL = ''/--/api/v2'', accessToken = [], httpClient = None\<rparr> \<and>
   PublishMultiple (NewPushClient build None) [msgA] =
     (Inl (Panic ''nil pointer dereference''), [])"
  by (simp add: NewPushClient_def DefaultHost_def DefaultBaseAPIURL_def PublishMultiple_def
      publishInternal_def msgA_def)

text \<open>
  C4. The specification exempts an envelope whose errors field is present but empty
  from the failure "Invalid server response". The code does not: an envelope whose
  errors field is present but empty and whose
  data field is present (here with one result for the one message sent) does fail with
  \<^verbatim>\<open>PushServerError\<close> "Invalid server response", carrying the empty list; the code
  tests \<^verbatim>\<open>r.Errors != nil\<close>, not the length.
\<close>

theorem C4_empty_errors_counterexample:
  "Errors env_empty_errors = Some [] \<and> Data env_empty_errors = Some [ok] \<and>
   PublishMultiple (stub_client (json_response 200 ''OK'' env_empty_errors)) [msgA] =
     (Inl (PushServerError ''Invalid server response'' (json_response 200 ''OK'' env_empty_errors)
        env_empty_errors (Some [])),
      [Sent ''/--/api/v2/push/send'' [msgA], BodyDecoded, BodyClosed])"
  by (simp add: PublishMultiple_def publishInternal_def stub_client_def json_response_def
      checkStatus_def reconcile_def env_empty_errors_def msgA_def DefaultBaseAPIURL_def)

text \<open>
  C4, amended. After a 2xx response whose body decodes into an envelope,
  \<^verbatim>\<open>PublishMultiple\<close> fails with a \<^verbatim>\<open>PushServerError\<close> of message
  "Invalid server response" exactly when the envelope's errors field is present
  (non-nil, empty or not) or its data field is absent; in the first case the error
  carries the envelope's errors, in the second (errors absent) it carries nil.
\<close>

theorem C4_invalid_server_response:
  assumes "validateMessages ms = None" and "httpClient c = Some t"
    and "t (apiURL c @ ''/push/send'') ms = Inr resp"
    and "200 \<le> StatusCode resp" and "StatusCode resp \<le> 299"
    and "RawBody resp = JSONObject r"
  shows "((\<exists>resp' r' errs. fst (PublishMultiple c ms) =
            Inl (PushServerError ''Invalid server response'' resp' r' errs))
          \<longleftrightarrow> Errors r \<noteq> None \<or> Data r = None) \<and>
     (Errors r \<noteq> None \<longrightarrow> fst (PublishMultiple c ms) =
        Inl (PushServerError ''Invalid server response'' resp r (Errors r))) \<and>
     (Errors r = None \<and> Data r = None \<longrightarrow> fst (PublishMultiple c ms) =
        Inl (PushServerError ''Invalid server response'' resp r None))"
proof -
  have k: "checkStatus resp = None" using assms(4,5) by (simp add: checkStatus_None)
  have p: "fst (PublishMultiple c ms) = reconcile ms resp (Some r)"
    using publishInternal_decoded[OF assms(1-3) k assms(6)] by (simp add: PublishMultiple_def)
  show ?thesis
  proof (cases "Errors r")
    case (Some es)
    then show ?thesis unfolding p by (simp add: reconcile_def)
  next
    case None
    note e = this
    show ?thesis
    proof (cases "Data r")
      case None
      with e show ?thesis unfolding p by (simp add: reconcile_def)
    next
      case (Some data)
      with e show ?thesis unfolding p
        by (cases "length ms = length data") (simp_all add: reconcile_def attachMessages_0)
    qed
  qed
qed

theorem C4_witness:
  "fst (PublishMultiple (stub_client (json_response 200 ''OK'' env_errors)) [msgA]) =
     Inl (PushServerError ''Invalid server response'' (json_response 200 ''OK'' env_errors)
       env_errors (Some [[(''message'', ''bad'')]]))"
proof -
  let ?resp = "json_response 200 ''OK'' env_errors"
  have h1: "validateMessages [msgA] = None" by (simp add: msgA_def)
  have h2: "httpClient (stub_client ?resp) = Some (\<lambda>path messages. Inr ?resp)"
    by (simp add: stub_client_def)
  have h3: "(\<lambda>path messages. Inr ?resp) (apiURL (stub_client ?resp) @ ''/push/send'') [msgA] = Inr ?resp"
    by simp
  have h4: "200 \<le> StatusCode ?resp" and h5: "StatusCode ?resp \<le> 299"
    and h6: "RawBody ?resp = JSONObject env_errors"
    by (simp_all add: json_response_def)
  have e: "Errors env_errors = Some [[(''message'', ''bad'')]]" by (simp add: env_errors_def)
  from C4_invalid_server_response[OF h1 h2 h3 h4 h5 h6] e show ?thesis by simp
qed

text \<open>
  C5. If any message of the input has no recipients or has an empty recipient token,
  the call fails as a whole with a validation error, and the first offending message
  in input order decides which: "no recipients" if it has no recipients,
  "invalid push token" if one of its tokens is empty. Nothing is sent.
\<close>

theorem C5_first_offender_decides:
  assumes "\<exists>m \<in> set ms. To m = [] \<or> [] \<in> set (To m)"
  shows "\<exists>pre m post. ms = pre @ m # post \<and>
     (\<forall>p \<in> set pre. To p \<noteq> [] \<and> [] \<notin> set (To p)) \<and>
     (To m = [] \<or> [] \<in> set (To m)) \<and>
     PublishMultiple c ms =
       (Inl (ErrorString (if To m = [] then ''no recipients'' else ''invalid push token'')), [])"
proof -
  from split_list_first_prop[OF assms] obtain pre m post where
    ms: "ms = pre @ m # post" and m: "To m = [] \<or> [] \<in> set (To m)" and
    pre: "\<forall>p \<in> set pre. \<not> (To p = [] \<or> [] \<in> set (To p))"
    by blast
  from pre have pre': "\<forall>p \<in> set pre. To p \<noteq> [] \<and> [] \<notin> set (To p)" by simp
  have "PublishMultiple c ms =
       (Inl (ErrorString (if To m = [] then ''no recipients'' else ''invalid push token'')), [])"
    unfolding ms PublishMultiple_def publishInternal_def
    by (simp add: validateMessages_first[OF pre' m])
  with ms m pre' show ?thesis by blast
qed

theorem C5_witness:
  "PublishMultiple (stub_client resp500) [msgA, \<lparr>To = [''C'', ''''], Payload = []\<rparr>, \<lparr>To = [], Payload = []\<rparr>] =
     (Inl (ErrorString ''invalid push token''), [])"
proof -
  let ?ms = "[msgA, \<lparr>To = [''C'', ''''], Payload = []\<rparr>, \<lparr>To = [], Payload = []\<rparr>]"
  have h: "\<exists>m \<in> set ?ms. To m = [] \<or> [] \<in> set (To m)" by simp
  from C5_first_offender_decides[OF h, of "stub_client resp500"] obtain pre m post where
    ms: "?ms = pre @ m # post" and
    pre: "\<forall>p \<in> set pre. To p \<noteq> [] \<and> [] \<notin> set (To p)" and
    m: "To m = [] \<or> [] \<in> set (To m)" and
    res: "PublishMultiple (stub_client resp500) ?ms =
       (Inl (ErrorString (if To m = [] then ''no recipients'' else ''invalid push token'')), [])"
    by blast
  have "pre = [msgA] \<and> m = \<lparr>To = [''C'', ''''], Payload = []\<rparr>"
    using ms pre m by (auto simp: Cons_eq_append_conv msgA_def)
  with res show ?thesis by simp
qed

text \<open>
  C6. For an input with an invalid message (no recipients, or an empty token),
  \<^verbatim>\<open>PublishMultiple\<close> returns one of the two validation errors and performs no
  call on the transport: its list of events is empty, and the outcome is the same
  whatever transport the client holds (also none).
\<close>

theorem C6_validation_failure_sends_nothing:
  assumes "\<exists>m \<in> set ms. To m = [] \<or> [] \<in> set (To m)"
  shows "snd (PublishMultiple c ms) = [] \<and>
     (fst (PublishMultiple c ms) = Inl (ErrorString ''no recipients'') \<or>
      fst (PublishMultiple c ms) = Inl (ErrorString ''invalid push token'')) \<and>
     PublishMultiple (c\<lparr>httpClient := h\<rparr>) ms = PublishMultiple c ms"
proof -
  from split_list_first_prop[OF assms] obtain pre m post where
    ms: "ms = pre @ m # post" and m: "To m = [] \<or> [] \<in> set (To m)" and
    pre: "\<forall>p \<in> set pre. \<not> (To p = [] \<or> [] \<in> set (To p))"
    by blast
  from pre have pre': "\<forall>p \<in> set pre. To p \<noteq> [] \<and> [] \<notin> set (To p)" by simp
  have v: "validateMessages ms =
      Some (ErrorString (if To m = [] then ''no recipients'' else ''invalid push token''))"
    unfolding ms by (rule validateMessages_first[OF pre' m])
  show ?thesis
    by (simp add: PublishMultiple_def publishInternal_def v)
qed

theorem C6_witness:
  "PublishMultiple (stub_client resp500) [msgA, \<lparr>To = [], Payload = []\<rparr>] =
     (Inl (ErrorString ''no recipients''), [])"
proof -
  let ?ms = "[msgA, \<lparr>To = [], Payload = []\<rparr>]"
  have h: "\<exists>m \<in> set ?ms. To m = [] \<or> [] \<in> set (To m)" by simp
  have "validateMessages ?ms \<noteq> Some (ErrorString ''invalid push token'')"
    by (simp add: msgA_def)
  then have "fst (PublishMultiple (stub_client resp500) ?ms) \<noteq> Inl (ErrorString ''invalid push token'')"
    by (simp add: PublishMultiple_def publishInternal_def msgA_def)
  with C6_validation_failure_sends_nothing[OF h, of "stub_client resp500"] show ?thesis
    by (simp add: prod_eq_iff)
qed

text \<open>
  C7. For a response whose status code is outside 200..299, \<^verbatim>\<open>PublishMultiple\<close>
  fails with the error "invalid response (code text)", made of the status code and the
  status text, and the body is not decoded: the only event is the request. Conversely
  \<^verbatim>\<open>checkStatus\<close> passes exactly the codes 200..299, and then the body is decoded.
\<close>

theorem C7_status_checked_before_decoding:
  assumes "validateMessages ms = None" and "httpClient c = Some t"
    and "t (apiURL c @ ''/push/send'') ms = Inr resp"
  shows "(StatusCode resp < 200 \<or> 299 < StatusCode resp \<longrightarrow>
        PublishMultiple c ms =
          (Inl (ErrorString (''invalid response ('' @ fmt_d (StatusCode resp) @ '' '' @
                  StatusText resp @ '')'')),
           [Sent (apiURL c @ ''/push/send'') ms]) \<and>
        BodyDecoded \<notin> set (snd (PublishMultiple c ms))) \<and>
     (checkStatus resp = None \<longleftrightarrow> 200 \<le> StatusCode resp \<and> StatusCode resp \<le> 299) \<and>
     (200 \<le> StatusCode resp \<and> StatusCode resp \<le> 299 \<longrightarrow>
        BodyDecoded \<in> set (snd (PublishMultiple c ms)))"
proof -
  have a: "StatusCode resp < 200 \<or> 299 < StatusCode resp \<longrightarrow>
        PublishMultiple c ms =
          (Inl (ErrorString (''invalid response ('' @ fmt_d (StatusCode resp) @ '' '' @
                  StatusText resp @ '')'')),
           [Sent (apiURL c @ ''/push/send'') ms]) \<and>
        BodyDecoded \<notin> set (snd (PublishMultiple c ms))"
    using assms by (auto simp: PublishMultiple_def publishInternal_def checkStatus_def)
  have b: "200 \<le> StatusCode resp \<and> StatusCode resp \<le> 299 \<longrightarrow>
        BodyDecoded \<in> set (snd (PublishMultiple c ms))"
    using assms by (auto simp: PublishMultiple_def publishInternal_def checkStatus_def split: sum.splits)
  from a b show ?thesis by (simp add: checkStatus_None)
qed

theorem C7_witness:
  "PublishMultiple (stub_client resp500) [msgA] =
     (Inl (ErrorString ''invalid response (500 Internal Server Error)''),
      [Sent ''/--/api/v2/push/send'' [msgA]]) \<and>
   checkStatus resp500 \<noteq> None"
proof -
  have h1: "validateMessages [msgA] = None" by (simp add: msgA_def)
  have h2: "httpClient (stub_client resp500) = Some (\<lambda>path messages. Inr resp500)"
    by (simp add: stub_client_def)
  have h3: "(\<lambda>path messages. Inr resp500) (apiURL (stub_client resp500) @ ''/push/send'') [msgA] =
      Inr resp500"
    by simp
  have s: "StatusCode resp500 = 500" "StatusText resp500 = ''Internal Server Error''"
    by (simp_all add: resp500_def)
  have u: "apiURL (stub_client resp500) = ''/--/api/v2''"
    by (simp add: stub_client_def DefaultBaseAPIURL_def)
  from C7_status_checked_before_decoding[OF h1 h2 h3] show ?thesis
    by (simp add: s u fmt_500)
qed

text \<open>
  C8. For \<open>N\<close> messages and a decoded envelope without errors field whose data list
  has \<open>M \<noteq> N\<close> items, \<^verbatim>\<open>PublishMultiple\<close> fails with a \<^verbatim>\<open>PushServerError\<close> whose
  message is "Mismatched response length. Expected N receipts but only received M",
  \<open>N\<close> and \<open>M\<close> in decimal.
\<close>

theorem C8_mismatched_response_length:
  assumes "validateMessages ms = None" and "httpClient c = Some t"
    and "t (apiURL c @ ''/push/send'') ms = Inr resp"
    and "200 \<le> StatusCode resp" and "StatusCode resp \<le> 299"
    and "RawBody resp = JSONObject r"
    and "Errors r = None" and "Data r = Some data" and "length data \<noteq> length ms"
  shows "PublishMultiple c ms =
     (Inl (PushServerError
        (''Mismatched response length. Expected '' @ fmt_d (int (length ms)) @
         '' receipts but only received '' @ fmt_d (int (length data)))
        resp r None),
      [Sent (apiURL c @ ''/push/send'') ms, BodyDecoded, BodyClosed])"
proof -
  have k: "checkStatus resp = None" using assms(4,5) by (simp add: checkStatus_None)
  have "reconcile ms resp (Some r) =
     Inl (PushServerError
        (''Mismatched response length. Expected '' @ fmt_d (int (length ms)) @
         '' receipts but only received '' @ fmt_d (int (length data)))
        resp r None)"
    using assms(7-9) by (auto simp: reconcile_def)
  with publishInternal_decoded[OF assms(1-3) k assms(6)] show ?thesis
    by (simp add: PublishMultiple_def)
qed

theorem C8_witness:
  "PublishMultiple (stub_client (json_response 200 ''OK'' \<lparr>Data = Some [ok], Errors = None\<rparr>))
     [msgA, msgB] =
     (Inl (PushServerError
        ''Mismatched response length. Expected 2 receipts but only received 1''
        (json_response 200 ''OK'' \<lparr>Data = Some [ok], Errors = None\<rparr>)
        \<lparr>Data = Some [ok], Errors = None\<rparr> None),
      [Sent ''/--/api/v2/push/send'' [msgA, msgB], BodyDecoded, BodyClosed])"
proof -
  let ?r = "\<lparr>Data = Some [ok], Errors = None\<rparr>"
  let ?resp = "json_response 200 ''OK'' ?r"
  have h1: "validateMessages [msgA, msgB] = None" by (simp add: msgA_def msgB_def)
  have h2: "httpClient (stub_client ?resp) = Some (\<lambda>path messages. Inr ?resp)"
    by (simp add: stub_client_def)
  have h3: "(\<lambda>path messages. Inr ?resp) (apiURL (stub_client ?resp) @ ''/push/send'') [msgA, msgB] =
      Inr ?resp"
    by simp
  have h4: "200 \<le> StatusCode ?resp" and h5: "StatusCode ?resp \<le> 299"
    and h6: "RawBody ?resp = JSONObject ?r"
    by (simp_all add: json_response_def)
  have h7: "Errors ?r = None" and h8: "Data ?r = Some [ok]" by simp_all
  have h9: "length [ok] \<noteq> length [msgA, msgB]" by simp
  have u: "apiURL (stub_client ?resp) = ''/--/api/v2''"
    by (simp add: stub_client_def DefaultBaseAPIURL_def)
  from C8_mismatched_response_length[OF h1 h2 h3 h4 h5 h6 h7 h8 h9] show ?thesis
    by (simp add: fmt_small u)
qed

text \<open>
  C9. For every message \<open>m\<close>, \<^verbatim>\<open>Publish\<close> of \<open>m\<close> is the batch send of the
  one-element list as the specification words it (\<open>Send_spec\<close>): the error of the
  batch with the empty \<^verbatim>\<open>PushResponse{}\<close>, or the first result of the batch, which
  is then its only one.
\<close>

theorem C9_publish_is_batch_of_one:
  "Publish c (Some m) = Send_spec c m \<and>
   (case fst (PublishMultiple c [m]) of Inl e \<Rightarrow> True | Inr responses \<Rightarrow> length responses = 1)"
proof (cases "PublishMultiple c [m]")
  case (Pair res evs)
  show ?thesis
  proof (cases res)
    case (Inl e)
    with Pair show ?thesis by (simp add: Publish_def Send_spec_def)
  next
    case (Inr rs)
    with Pair have "publishInternal c [m] = (Inr rs, evs)" by (simp add: PublishMultiple_def)
    from publishInternal_Inr[OF this] obtain data where
      "length data = length [m]" "rs = map2 (\<lambda>r m. r\<lparr>PushMessage := m\<rparr>) data [m]"
      by blast
    then obtain r where "rs = [r]" by (cases data) auto
    with Pair Inr show ?thesis by (simp add: Publish_def Send_spec_def)
  qed
qed

theorem C9_witness:
  "Publish (stub_client (json_response 200 ''OK'' \<lparr>Data = Some [ok], Errors = None\<rparr>)) (Some msgA) =
     ((ok\<lparr>PushMessage := msgA\<rparr>, None),
      [Sent ''/--/api/v2/push/send'' [msgA], BodyDecoded, BodyClosed]) \<and>
   Publish (stub_client resp500) (Some msgA) =
     ((PushResponse_zero, Some (ErrorString ''invalid response (500 Internal Server Error)'')),
      [Sent ''/--/api/v2/push/send'' [msgA]])"
proof -
  let ?c = "stub_client (json_response 200 ''OK'' \<lparr>Data = Some [ok], Errors = None\<rparr>)"
  have a: "PublishMultiple ?c [msgA] =
     (Inr [ok\<lparr>PushMessage := msgA\<rparr>],
      [Sent ''/--/api/v2/push/send'' [msgA], BodyDecoded, BodyClosed])"
    by (simp add: PublishMultiple_def publishInternal_def stub_client_def json_response_def
        checkStatus_def reconcile_def attachMessages.simps msgA_def DefaultBaseAPIURL_def)
  have b: "PublishMultiple (stub_client resp500) [msgA] =
     (Inl (ErrorString ''invalid response (500 Internal Server Error)''),
      [Sent ''/--/api/v2/push/send'' [msgA]])"
    by (simp add: PublishMultiple_def publishInternal_def stub_client_def resp500_def
        checkStatus_def fmt_500 msgA_def DefaultBaseAPIURL_def)
  from C9_publish_is_batch_of_one[of ?c msgA] C9_publish_is_batch_of_one[of "stub_client resp500" msgA]
  show ?thesis by (simp add: Send_spec_def a b)
qed

text \<open>
  C10. The empty message list passes the validation loop; with a transport present the
  request is issued; and when the answer has a status in 200..299 and decodes into an
  envelope with no errors field and a present, empty data list, the call succeeds with
  the empty result list.
\<close>

theorem C10_empty_batch:
  assumes "httpClient c = Some t"
  shows "validateMessages [] = None \<and>
     (\<exists>rest. snd (PublishMultiple c []) = Sent (apiURL c @ ''/push/send'') [] # rest) \<and>
     (\<forall>resp r. t (apiURL c @ ''/push/send'') [] = Inr resp \<and>
          200 \<le> StatusCode resp \<and> StatusCode resp \<le> 299 \<and>
          RawBody resp = JSONObject r \<and> Errors r = None \<and> Data r = Some [] \<longrightarrow>
        PublishMultiple c [] =
          (Inr [], [Sent (apiURL c @ ''/push/send'') [], BodyDecoded, BodyClosed]))"
proof -
  have sent: "\<exists>rest. snd (PublishMultiple c []) = Sent (apiURL c @ ''/push/send'') [] # rest"
    using assms
    by (simp add: PublishMultiple_def publishInternal_def split: sum.splits option.splits)
  have fin: "PublishMultiple c [] =
          (Inr [], [Sent (apiURL c @ ''/push/send'') [], BodyDecoded, BodyClosed])"
    if "t (apiURL c @ ''/push/send'') [] = Inr resp" "200 \<le> StatusCode resp"
      "StatusCode resp \<le> 299" "RawBody resp = JSONObject r" "Errors r = None"
      "Data r = Some []" for resp r
  proof -
    have k: "checkStatus resp = None" using that(2,3) by (simp add: checkStatus_None)
    have v: "validateMessages [] = None" by simp
    have "reconcile [] resp (Some r) = Inr []"
      using that(5,6) by (simp add: reconcile_def attachMessages.simps)
    with publishInternal_decoded[OF v assms that(1) k that(4)] show ?thesis
      by (simp add: PublishMultiple_def)
  qed
  from sent fin show ?thesis by auto
qed

theorem C10_witness:
  "PublishMultiple (stub_client (json_response 200 ''OK'' \<lparr>Data = Some [], Errors = None\<rparr>)) [] =
     (Inr [], [Sent ''/--/api/v2/push/send'' [], BodyDecoded, BodyClosed])"
proof -
  let ?r = "\<lparr>Data = Some [], Errors = None\<rparr>"
  let ?resp = "json_response 200 ''OK'' ?r"
  have h: "httpClient (stub_client ?resp) = Some (\<lambda>path messages. Inr ?resp)"
    by (simp add: stub_client_def)
  have u: "apiURL (stub_client ?resp) = ''/--/api/v2''"
    by (simp add: stub_client_def DefaultBaseAPIURL_def)
  have p: "(\<lambda>path messages. Inr ?resp) (apiURL (stub_client ?resp) @ ''/push/send'') [] = Inr ?resp \<and>
          200 \<le> StatusCode ?resp \<and> StatusCode ?resp \<le> 299 \<and>
          RawBody ?resp = JSONObject ?r \<and> Errors ?r = None \<and> Data ?r = Some []"
    by (simp add: json_response_def)
  from C10_empty_batch[OF h, THEN conjunct2, THEN conjunct2, THEN spec, THEN spec, THEN mp, OF p]
  show ?thesis unfolding u by simp
qed

end
